theory Spec2Isabelle
  imports Main
begin

section \<open>The JWT middleware of yee (middleware/jwt.go)\<close>

text \<open>
  The gate \<open>JWTWithConfig\<close> reads a credential from a request header, hands it to the
  token library together with a key function, and either puts the verified token into
  the per-request store or answers with an error status. Go strings are byte strings
  (\<open>string\<close>), an \<open>error\<close> is seen through its message, a nil interface or pointer is
  \<open>None\<close>, and a panic is the value \<open>Panic\<close>.
\<close>

subsection \<open>Values\<close>

type_synonym error = string

datatype 'a result = Panic string | Return 'a

text \<open>
  A value of the interface \<open>jwt.Claims\<close>: the open map \<open>jwt.MapClaims\<close>, a pointer to a
  declared claim shape (the shape's name and its fields), or a declared shape held by
  value.
\<close>

datatype Claims =
    MapClaims "(string \<times> string) list"
  | PtrClaims string "(string \<times> string) list"
  | StructClaims string "(string \<times> string) list"

text \<open>
  \<open>jwt.Token\<close> as the gate reads it: \<open>Alg\<close> is \<open>token.Method.Alg()\<close>, \<open>Header\<close> the decoded
  header fields, \<open>TokenClaims\<close> the field \<open>Claims\<close>.
\<close>

record Token =
  Raw :: string
  Alg :: string
  Header :: "string \<rightharpoonup> string"
  TokenClaims :: Claims
  Signature :: string
  Valid :: bool

text \<open>What a handler may keep in the per-request store (an \<open>interface{}\<close> in Go).\<close>

datatype stored = TokenValue Token | ClaimsValue Claims

text \<open>
  Modelled from the spec: \<open>yee.Context\<close>, whose declaration is not among the sources.
  The gate needs "a request abstraction exposing header lookup by name", "a
  response-writing abstraction supporting a status code plus a structured body" and "a
  per-request key/value store". \<open>ReqHeader\<close> is the lookup \<open>Request().Header.Get\<close> as a
  partial map (no entry: no such header, the lookup gives the empty string);
  \<open>response\<close> is the answer written so far, if any. A request whose context leaves the
  gate with no answer written goes on to the next handler.
\<close>

record Context =
  ReqHeader :: "string \<rightharpoonup> string"
  store :: "string \<rightharpoonup> stored"
  response :: "(nat \<times> string) option"

definition Get :: "(string \<rightharpoonup> string) \<Rightarrow> string \<Rightarrow> string" where
  "Get h name = (case h name of None \<Rightarrow> [] | Some v \<Rightarrow> v)"

definition JSON :: "nat \<Rightarrow> string \<Rightarrow> Context \<Rightarrow> Context" where
  "JSON code body c = c\<lparr>response := Some (code, body)\<rparr>"

definition Put :: "string \<Rightarrow> stored \<Rightarrow> Context \<Rightarrow> Context" where
  "Put k v c = c\<lparr>store := (store c)(k \<mapsto> v)\<rparr>"

definition StatusBadRequest :: nat where
  "StatusBadRequest = 400"

definition StatusUnauthorized :: nat where
  "StatusUnauthorized = 401"

subsection \<open>Configuration\<close>

type_synonym Keyfunc = "Token \<Rightarrow> error + string option"

type_synonym jwtExtractor = "Context \<Rightarrow> error + string"

text \<open>
  \<open>jwt.ParseWithClaims\<close> of the token library (github.com/dgrijalva/jwt-go), which is
  outside the repository: the gate is parametrised by it. It takes the raw credential,
  the claims value to decode into and the key function, and returns a token pointer
  and an error, either of which may be nil.
\<close>

type_synonym Parser = "string \<Rightarrow> Claims \<Rightarrow> Keyfunc \<Rightarrow> Token option \<times> error option"

record JwtConfig =
  GetKey :: string
  AuthScheme :: string
  SigningKey :: "string option"
  SigningMethod :: string
  TokenLookup :: string
  Claims :: "Claims option"
  ErrorHandler :: "(error \<Rightarrow> error) option"
  SuccessHandler :: "(Context \<Rightarrow> Context) option"

definition algorithmHS256 :: string where
  "algorithmHS256 = ''HS256''"

definition HeaderAuthorization :: string where
  "HeaderAuthorization = ''Authorization''"

definition DefaultJwtConfig :: JwtConfig where
  "DefaultJwtConfig =
     \<lparr>GetKey = ''auth'', AuthScheme = ''Bearer'', SigningKey = None,
      SigningMethod = algorithmHS256, TokenLookup = ''header:'' @ HeaderAuthorization,
      Claims = Some (MapClaims []), ErrorHandler = None, SuccessHandler = None\<rparr>"

subsection \<open>strings.Index and strings.Split\<close>

fun Index :: "string \<Rightarrow> string \<Rightarrow> nat option" where
  "Index [] substr = (if substr = [] then Some 0 else None)"
| "Index (c # s) substr =
     (if take (length substr) (c # s) = substr then Some 0
      else map_option Suc (Index s substr))"

lemma Index_Nil: "sep \<noteq> [] \<Longrightarrow> Index s sep = Some m \<Longrightarrow> s \<noteq> []"
  by (cases s) auto

text \<open>
  \<open>strings.Split\<close>: the pieces of \<open>s\<close> between the occurrences of \<open>sep\<close>. With an empty
  separator Go cuts after every UTF-8 sequence, which for ASCII text is after every byte.
\<close>

function Split :: "string \<Rightarrow> string \<Rightarrow> string list" where
  "Split s sep =
     (if sep = [] then map (\<lambda>c. [c]) s
      else (case Index s sep of
              None \<Rightarrow> [s]
            | Some m \<Rightarrow> take m s # Split (drop (m + length sep) s) sep))"
  by pat_completeness auto
termination
proof (relation "measure (\<lambda>(s, sep). length s)")
  show "wf (measure (\<lambda>(s, sep). length s))" by simp
next
  fix s sep :: string and m :: nat
  assume "sep \<noteq> []" and "Index s sep = Some m"
  then have "s \<noteq> []" by (rule Index_Nil)
  with \<open>sep \<noteq> []\<close> show "((drop (m + length sep) s, sep), (s, sep)) \<in> measure (\<lambda>(s, sep). length s)"
    by (cases s) auto
qed

declare Split.simps [simp del]

subsection \<open>The extractor\<close>

definition jwtFromHeader :: "string \<Rightarrow> string \<Rightarrow> jwtExtractor" where
  "jwtFromHeader header authScheme = (\<lambda>c.
     let auth = Get (ReqHeader c) header;
         l = length authScheme
     in if length auth > l + 1 \<and> take l auth = authScheme
        then Inr (drop (l + 1) auth)
        else Inl ''missing or malformed jwt'')"

subsection \<open>The gate\<close>

text \<open>\<open>%v\<close> of a header field: the string, or \<open><nil>\<close> for a field that is not there.\<close>

definition fmt_v :: "string option \<Rightarrow> string" where
  "fmt_v x = (case x of None \<Rightarrow> ''<nil>'' | Some s \<Rightarrow> s)"

definition keyFunc :: "JwtConfig \<Rightarrow> Keyfunc" where
  "keyFunc config = (\<lambda>token.
     if Alg token \<noteq> SigningMethod config
     then Inl (''unexpected jwt signing method='' @ fmt_v (Header token ''alg''))
     else Inr (SigningKey config))"

text \<open>The type assertion \<open>config.Claims.(jwt.MapClaims)\<close>.\<close>

definition isMapClaims :: "Claims option \<Rightarrow> bool" where
  "isMapClaims x = (case x of Some (MapClaims m) \<Rightarrow> True | _ \<Rightarrow> False)"

text \<open>
  \<open>reflect.New(reflect.ValueOf(config.Claims).Type().Elem()).Interface().(jwt.Claims)\<close>:
  a fresh value of the shape a pointer points to. \<open>ValueOf\<close> of nil has no type, \<open>Elem\<close>
  of a struct type panics, and the element type of \<open>jwt.MapClaims\<close> is \<open>interface{}\<close>,
  a pointer to which has no method \<open>Valid\<close>.
\<close>

definition newClaims :: "Claims option \<Rightarrow> Claims result" where
  "newClaims x =
     (case x of
        None \<Rightarrow> Panic ''reflect: call of reflect.Value.Type on zero Value''
      | Some (PtrClaims shape fs) \<Rightarrow> Return (PtrClaims shape [])
      | Some (StructClaims shape fs) \<Rightarrow> Panic ''reflect: Elem of invalid type''
      | Some (MapClaims m) \<Rightarrow> Panic ''interface conversion: missing method Valid'')"

text \<open>The end of the handler: \<open>if err == nil && token.Valid { c.Put(...); return }\<close>.\<close>

definition admit :: "JwtConfig \<Rightarrow> Token option \<Rightarrow> error option \<Rightarrow> Context \<Rightarrow> Context result" where
  "admit config token err c =
     (case err of
        Some e \<Rightarrow> Return (JSON StatusUnauthorized ''invalid or expired jwt'' c)
      | None \<Rightarrow>
          (case token of
             None \<Rightarrow> Panic ''runtime error: invalid memory address or nil pointer dereference''
           | Some t \<Rightarrow>
               if Valid t then Return (Put (GetKey config) (TokenValue t) c)
               else Return (JSON StatusUnauthorized ''invalid or expired jwt'' c)))"

text \<open>The handler that \<open>JWTWithConfig\<close> returns.\<close>

definition handler :: "Parser \<Rightarrow> JwtConfig \<Rightarrow> jwtExtractor \<Rightarrow> Context \<Rightarrow> Context result" where
  "handler parse config extractor c =
     (case extractor c of
        Inl err \<Rightarrow> Return (JSON StatusBadRequest err c)
      | Inr auth \<Rightarrow>
          if isMapClaims (Claims config) then
            (case parse auth (MapClaims []) (keyFunc config) of
               (token, err) \<Rightarrow>
                 (case err of
                    Some e \<Rightarrow> Return (JSON StatusUnauthorized e c)
                  | None \<Rightarrow> admit config token err c))
          else
            (case newClaims (Claims config) of
               Panic msg \<Rightarrow> Panic msg
             | Return claims \<Rightarrow>
                 (case parse auth claims (keyFunc config) of
                    (token, err) \<Rightarrow> admit config token err c)))"

text \<open>The defaults that \<open>JWTWithConfig\<close> fills in for unset fields.\<close>

definition withDefaults :: "JwtConfig \<Rightarrow> JwtConfig" where
  "withDefaults config =
     (let config = (if SigningMethod config = []
                    then config\<lparr>SigningMethod := SigningMethod DefaultJwtConfig\<rparr> else config);
          config = (if GetKey config = []
                    then config\<lparr>GetKey := GetKey DefaultJwtConfig\<rparr> else config);
          config = (if AuthScheme config = []
                    then config\<lparr>AuthScheme := AuthScheme DefaultJwtConfig\<rparr> else config);
          config = (if Claims config = None
                    then config\<lparr>Claims := Claims DefaultJwtConfig\<rparr> else config);
          config = (if TokenLookup config = []
                    then config\<lparr>TokenLookup := TokenLookup DefaultJwtConfig\<rparr> else config)
      in config)"

definition JWTWithConfig :: "Parser \<Rightarrow> JwtConfig \<Rightarrow> (Context \<Rightarrow> Context result) result" where
  "JWTWithConfig parse config0 =
     (if SigningKey config0 = None then Panic ''yee: jwt middleware requires signing key''
      else
        let config = withDefaults config0;
            parts = Split (TokenLookup config) '':''
        in (case parts of
              source # name # rest \<Rightarrow>
                Return (handler parse config (jwtFromHeader name (AuthScheme config)))
            | _ \<Rightarrow> Panic ''runtime error: index out of range [1] with length 1''))"

text \<open>
  Registering the gate and running it on one request: the outer result is the setup
  (a panic of \<open>JWTWithConfig\<close> itself), the inner one the request.
\<close>

definition serve :: "Parser \<Rightarrow> JwtConfig \<Rightarrow> Context \<Rightarrow> Context result result" where
  "serve parse config c =
     (case JWTWithConfig parse config of
        Panic msg \<Rightarrow> Panic msg
      | Return h \<Rightarrow> Return (h c))"

subsection \<open>The verifier\<close>

text \<open>
  The primitives of the token library, trusted and left open: decoding a raw credential
  into a token whose claims fill the given claims value (with the declared algorithm
  read from the header), the signature check of an algorithm on a raw credential under
  a key, and the check of the temporal claims.
\<close>

record Primitives =
  ParseUnverified :: "string \<Rightarrow> Claims \<Rightarrow> Token option \<times> error option"
  Verify :: "string \<Rightarrow> string \<Rightarrow> string option \<Rightarrow> error option"
  ClaimsValid :: "Claims \<Rightarrow> error option"

text \<open>
  Modelled from the spec: the verifier, \<open>jwt.ParseWithClaims\<close> of the token library,
  whose code is not among the sources. It "decodes the credential's header to read its
  declared algorithm"; the comparison with the configured algorithm is the key
  function's, and its error ends the verification "before attempting signature checks
  with an attacker-chosen algorithm". "Otherwise validate the signature using
  signingKey; validate standard temporal claims (expiry, not-before) if present." Only a
  token that passed every check is marked valid.
\<close>

definition ParseWithClaims :: "Primitives \<Rightarrow> Parser" where
  "ParseWithClaims lib tokenString claims kf =
     (case ParseUnverified lib tokenString claims of
        (token, Some err) \<Rightarrow> (token, Some err)
      | (None, None) \<Rightarrow> (None, None)
      | (Some token, None) \<Rightarrow>
          (case kf token of
             Inl err \<Rightarrow> (Some token, Some err)
           | Inr key \<Rightarrow>
               (case Verify lib (Alg token) tokenString key of
                  Some err \<Rightarrow> (Some token, Some err)
                | None \<Rightarrow>
                    (case ClaimsValid lib (TokenClaims token) of
                       Some err \<Rightarrow> (Some token, Some err)
                     | None \<Rightarrow> (Some (token\<lparr>Valid := True\<rparr>), None)))))"

subsection \<open>A small library instance for running examples\<close>

text \<open>
  An executable instance of the primitives that knows a handful of credentials: \<open>good\<close>
  (HS256, signed with the key \<open>secret\<close>), \<open>forged\<close> (HS256, wrong signature), \<open>old\<close>
  (HS256, well signed, expired) and \<open>hs384\<close> (HS384, well signed under that algorithm).
\<close>

definition fill :: "Claims \<Rightarrow> (string \<times> string) list \<Rightarrow> Claims" where
  "fill claims fs =
     (case claims of
        MapClaims m \<Rightarrow> MapClaims fs
      | PtrClaims shape old \<Rightarrow> PtrClaims shape fs
      | StructClaims shape old \<Rightarrow> StructClaims shape fs)"

definition claimFields :: "Claims \<Rightarrow> (string \<times> string) list" where
  "claimFields claims =
     (case claims of
        MapClaims m \<Rightarrow> m
      | PtrClaims shape fs \<Rightarrow> fs
      | StructClaims shape fs \<Rightarrow> fs)"

definition demoToken :: "string \<Rightarrow> string \<Rightarrow> Claims \<Rightarrow> Token" where
  "demoToken raw alg claims =
     \<lparr>Raw = raw, Alg = alg, Header = [''alg'' \<mapsto> alg], TokenClaims = claims,
      Signature = [], Valid = False\<rparr>"

definition demoLib :: Primitives where
  "demoLib =
     \<lparr>ParseUnverified = (\<lambda>raw claims.
        if raw = ''good'' \<or> raw = ''forged''
        then (Some (demoToken raw ''HS256'' (fill claims [(''sub'', ''alice'')])), None)
        else if raw = ''old''
        then (Some (demoToken raw ''HS256'' (fill claims [(''exp'', ''0'')])), None)
        else if raw = ''hs384''
        then (Some (demoToken raw ''HS384'' (fill claims [(''sub'', ''mallory'')])), None)
        else (None, Some ''token contains an invalid number of segments'')),
      Verify = (\<lambda>alg raw key.
        if raw = ''forged'' \<or> key \<noteq> Some ''secret''
        then Some ''signature is invalid'' else None),
      ClaimsValid = (\<lambda>claims.
        if map_of (claimFields claims) ''exp'' = Some ''0''
        then Some ''Token is expired'' else None)\<rparr>"

text \<open>The token that the instance makes of the credential \<open>good\<close>, once verified.\<close>

definition goodToken :: Token where
  "goodToken =
     (demoToken ''good'' ''HS256'' (MapClaims [(''sub'', ''alice'')]))\<lparr>Valid := True\<rparr>"

definition demoConfig :: JwtConfig where
  "demoConfig =
     \<lparr>GetKey = [], AuthScheme = [], SigningKey = Some ''secret'', SigningMethod = [],
      TokenLookup = [], Claims = None, ErrorHandler = None, SuccessHandler = None\<rparr>"

definition request :: "string \<Rightarrow> Context" where
  "request auth =
     \<lparr>ReqHeader = [''Authorization'' \<mapsto> auth], store = Map.empty, response = None\<rparr>"

section \<open>Auxiliary facts\<close>

lemma Index_absent: "c \<notin> set s \<Longrightarrow> Index s [c] = None"
  by (induction s) auto

lemma Index_first: "c \<notin> set a \<Longrightarrow> Index (a @ c # b) [c] = Some (length a)"
  by (induction a) auto

lemma Split_absent: "c \<notin> set s \<Longrightarrow> Split s [c] = [s]"
  by (simp add: Split.simps [of s] Index_absent)

lemma Split_first: "c \<notin> set a \<Longrightarrow> Split (a @ c # b) [c] = a # Split b [c]"
  by (simp add: Split.simps [of "a @ c # b"] Index_first)

lemma Split_two:
  "c \<notin> set a \<Longrightarrow> c \<notin> set b \<Longrightarrow> Split (a @ c # b) [c] = [a, b]"
  by (simp add: Split_first Split_absent)

lemma JWTWithConfig_Return:
  assumes "JWTWithConfig parse cfg = Return h"
  shows "h = handler parse (withDefaults cfg)
               (jwtFromHeader (Split (TokenLookup (withDefaults cfg)) '':'' ! 1)
                  (AuthScheme (withDefaults cfg)))"
  using assms
  by (auto simp: JWTWithConfig_def Let_def split: if_splits list.splits)

lemma jwtFromHeader_Inr:
  "jwtFromHeader header scheme c = Inr tok \<longleftrightarrow>
     tok \<noteq> [] \<and> (\<exists>sep. Get (ReqHeader c) header = scheme @ sep # tok)"
proof
  assume a: "jwtFromHeader header scheme c = Inr tok"
  let ?auth = "Get (ReqHeader c) header"
  from a have len: "length ?auth > length scheme + 1" and pre: "take (length scheme) ?auth = scheme"
    and tok: "tok = drop (length scheme + 1) ?auth"
    by (auto simp: jwtFromHeader_def Let_def split: if_splits)
  from len tok have "tok \<noteq> []" by simp
  moreover have "?auth = scheme @ (?auth ! length scheme) # tok"
  proof -
    from len have "length scheme < length ?auth" by simp
    then have "?auth = take (length scheme) ?auth @ ?auth ! length scheme # drop (Suc (length scheme)) ?auth"
      by (rule id_take_nth_drop)
    with pre tok show ?thesis by simp
  qed
  ultimately show "tok \<noteq> [] \<and> (\<exists>sep. ?auth = scheme @ sep # tok)" by blast
next
  assume "tok \<noteq> [] \<and> (\<exists>sep. Get (ReqHeader c) header = scheme @ sep # tok)"
  then show "jwtFromHeader header scheme c = Inr tok"
    by (auto simp: jwtFromHeader_def Let_def)
qed

lemma jwtFromHeader_Inl:
  "jwtFromHeader header scheme c = Inl e \<longleftrightarrow>
     e = ''missing or malformed jwt'' \<and>
     \<not> (\<exists>sep rest. rest \<noteq> [] \<and> Get (ReqHeader c) header = scheme @ sep # rest)"
proof (cases "jwtFromHeader header scheme c")
  case (Inl a)
  then have "a = ''missing or malformed jwt''"
    by (auto simp: jwtFromHeader_def Let_def split: if_splits)
  moreover have "\<not> (\<exists>sep rest. rest \<noteq> [] \<and> Get (ReqHeader c) header = scheme @ sep # rest)"
    using Inl jwtFromHeader_Inr [of header scheme c] by auto
  ultimately show ?thesis using Inl by auto
next
  case (Inr b)
  then show ?thesis using jwtFromHeader_Inr [of header scheme c b] by auto
qed


lemma handler_extract_fail:
  "extractor c = Inl e \<Longrightarrow> handler parse config extractor c = Return (JSON StatusBadRequest e c)"
  by (simp add: handler_def)

lemma handler_verify_fail:
  assumes "extractor c = Inr auth"
    and "(if isMapClaims (Claims config) then Return (MapClaims []) else newClaims (Claims config))
           = Return claims"
    and "parse auth claims (keyFunc config) = (token, err)"
    and "err \<noteq> None \<or> (\<exists>t. token = Some t \<and> \<not> Valid t)"
  shows "handler parse config extractor c =
           Return (JSON StatusUnauthorized
             (case err of
                Some e \<Rightarrow> if isMapClaims (Claims config) then e else ''invalid or expired jwt''
              | None \<Rightarrow> ''invalid or expired jwt'') c)"
  using assms
  by (auto simp: handler_def admit_def split: if_splits option.splits)

lemma handler_verify_ok:
  assumes "extractor c = Inr auth"
    and "(if isMapClaims (Claims config) then Return (MapClaims []) else newClaims (Claims config))
           = Return claims"
    and "parse auth claims (keyFunc config) = (Some t, None)"
    and "Valid t"
  shows "handler parse config extractor c = Return (Put (GetKey config) (TokenValue t) c)"
  using assms
  by (auto simp: handler_def admit_def split: if_splits option.splits)

lemma keyFunc_TokenLookup: "keyFunc (config\<lparr>TokenLookup := x\<rparr>) = keyFunc config"
  by (auto simp: keyFunc_def fun_eq_iff)

lemma admit_TokenLookup: "admit (config\<lparr>TokenLookup := x\<rparr>) = admit config"
  by (auto simp: fun_eq_iff admit_def split: option.splits)

lemma handler_TokenLookup:
  "handler parse (config\<lparr>TokenLookup := x\<rparr>) extractor = handler parse config extractor"
  by (auto simp: fun_eq_iff handler_def keyFunc_TokenLookup admit_TokenLookup
      split: sum.splits prod.splits option.splits result.splits)

lemma keyFunc_hooks:
  "keyFunc (config\<lparr>ErrorHandler := e, SuccessHandler := s\<rparr>) = keyFunc config"
  by (auto simp: keyFunc_def fun_eq_iff)

lemma admit_hooks:
  "admit (config\<lparr>ErrorHandler := e, SuccessHandler := s\<rparr>) = admit config"
  by (auto simp: fun_eq_iff admit_def split: option.splits)

lemma handler_hooks:
  "handler parse (config\<lparr>ErrorHandler := e, SuccessHandler := s\<rparr>) extractor
     = handler parse config extractor"
  by (auto simp: fun_eq_iff handler_def keyFunc_hooks admit_hooks
      split: sum.splits prod.splits option.splits result.splits)

lemma withDefaults_TokenLookup:
  "x \<noteq> [] \<Longrightarrow> withDefaults (config\<lparr>TokenLookup := x\<rparr>) = (withDefaults config)\<lparr>TokenLookup := x\<rparr>"
  by (simp add: withDefaults_def Let_def)

lemma withDefaults_hooks:
  "withDefaults (config\<lparr>ErrorHandler := e, SuccessHandler := s\<rparr>)
     = (withDefaults config)\<lparr>ErrorHandler := e, SuccessHandler := s\<rparr>"
  by (simp add: withDefaults_def Let_def)

lemma withDefaults_demoConfig:
  "withDefaults demoConfig =
     \<lparr>GetKey = ''auth'', AuthScheme = ''Bearer'', SigningKey = Some ''secret'',
      SigningMethod = ''HS256'', TokenLookup = ''header:Authorization'',
      Claims = Some (MapClaims []), ErrorHandler = None, SuccessHandler = None\<rparr>"
  by (simp add: withDefaults_def demoConfig_def DefaultJwtConfig_def algorithmHS256_def
      HeaderAuthorization_def Let_def)

lemma Split_header_Authorization:
  "Split ''header:Authorization'' '':'' = [''header'', ''Authorization'']"
  using Split_two [of "CHR '':''" "''header''" "''Authorization''"] by simp

lemma JWTWithConfig_demoConfig:
  "JWTWithConfig parse demoConfig =
     Return (handler parse (withDefaults demoConfig) (jwtFromHeader ''Authorization'' ''Bearer''))"
  by (simp add: JWTWithConfig_def Let_def withDefaults_demoConfig Split_header_Authorization)
    (simp add: demoConfig_def)

lemma extract_demo:
  "jwtFromHeader ''Authorization'' ''Bearer'' (request (''Bearer'' @ sep # x # tok)) = Inr (x # tok)"
  by (simp add: jwtFromHeader_def request_def Get_def)

lemma keyFunc_demo:
  "keyFunc (withDefaults demoConfig) (demoToken raw alg claims) =
     (if alg \<noteq> ''HS256'' then Inl (''unexpected jwt signing method='' @ alg) else Inr (Some ''secret''))"
  by (simp add: keyFunc_def withDefaults_demoConfig demoToken_def fmt_v_def)

lemma parse_good:
  "ParseWithClaims demoLib ''good'' (MapClaims []) (keyFunc (withDefaults demoConfig))
     = (Some goodToken, None)"
  by (simp add: ParseWithClaims_def demoLib_def keyFunc_demo fill_def claimFields_def goodToken_def)
     (simp add: demoToken_def)

lemma parse_forged:
  "ParseWithClaims demoLib ''forged'' (MapClaims []) (keyFunc (withDefaults demoConfig))
     = (Some (demoToken ''forged'' ''HS256'' (MapClaims [(''sub'', ''alice'')])), Some ''signature is invalid'')"
  by (simp add: ParseWithClaims_def demoLib_def keyFunc_demo fill_def claimFields_def)

lemma parse_hs384:
  "ParseWithClaims demoLib ''hs384'' (MapClaims []) (keyFunc (withDefaults demoConfig))
     = (Some (demoToken ''hs384'' ''HS384'' (MapClaims [(''sub'', ''mallory'')])),
        Some ''unexpected jwt signing method=HS384'')"
  by (simp add: ParseWithClaims_def demoLib_def keyFunc_demo fill_def claimFields_def)

lemma isMap_demo: "isMapClaims (Claims (withDefaults demoConfig))"
  by (simp add: withDefaults_demoConfig isMapClaims_def)

lemma serve_demo:
  "serve parse demoConfig c =
     Return (handler parse (withDefaults demoConfig) (jwtFromHeader ''Authorization'' ''Bearer'') c)"
  by (simp add: serve_def JWTWithConfig_demoConfig)

lemma serve_good:
  "serve (ParseWithClaims demoLib) demoConfig (request (''Bearer'' @ sep # ''good''))
     = Return (Return (Put ''auth'' (TokenValue goodToken) (request (''Bearer'' @ sep # ''good''))))"
proof -
  let ?c = "request (''Bearer'' @ sep # ''good'')"
  have 1: "jwtFromHeader ''Authorization'' ''Bearer'' ?c = Inr ''good''"
    by (rule extract_demo)
  have 2: "(if isMapClaims (Claims (withDefaults demoConfig)) then Return (MapClaims [])
            else newClaims (Claims (withDefaults demoConfig))) = Return (MapClaims [])"
    by (simp add: isMap_demo)
  have 3: "Valid goodToken" by (simp add: goodToken_def)
  have "handler (ParseWithClaims demoLib) (withDefaults demoConfig)
          (jwtFromHeader ''Authorization'' ''Bearer'') ?c
        = Return (Put (GetKey (withDefaults demoConfig)) (TokenValue goodToken) ?c)"
    by (rule handler_verify_ok [where extractor = "jwtFromHeader ''Authorization'' ''Bearer''"
          and parse = "ParseWithClaims demoLib", OF 1 2 parse_good 3])
  then show ?thesis by (simp add: serve_demo withDefaults_demoConfig)
qed

section \<open>The claims\<close>

subsection \<open>Extraction\<close>

text \<open>
  C2, as amended. Extraction succeeds exactly when the header value is the scheme, then
  one separator byte, then at least one more byte; the separator is skipped without
  being compared with a space. The credential returned is what follows the separator;
  every other value, the empty one of a missing header included, gives the error
  \<open>missing or malformed jwt\<close>.
\<close>

theorem jwtFromHeader_accepts:
  "(jwtFromHeader header scheme c = Inr tok \<longleftrightarrow>
      tok \<noteq> [] \<and> (\<exists>sep. Get (ReqHeader c) header = scheme @ sep # tok)) \<and>
   (jwtFromHeader header scheme c = Inl e \<longleftrightarrow>
      e = ''missing or malformed jwt'' \<and>
      \<not> (\<exists>sep rest. rest \<noteq> [] \<and> Get (ReqHeader c) header = scheme @ sep # rest))"
  using jwtFromHeader_Inr [of header scheme c tok] jwtFromHeader_Inl [of header scheme c e]
  by blast

theorem jwtFromHeader_accepts_witness:
  "jwtFromHeader ''Authorization'' ''Bearer'' (request ''Bearer abc'') = Inr ''abc'' \<and>
   jwtFromHeader ''Authorization'' ''Bearer'' (request ''Bearer '') = Inl ''missing or malformed jwt''"
  using jwtFromHeader_accepts [of "''Authorization''" "''Bearer''" "request ''Bearer abc''" "''abc''"]
    jwtFromHeader_accepts [of "''Authorization''" "''Bearer''" "request ''Bearer ''" "''abc''"
      "''missing or malformed jwt''"]
  by (simp add: request_def Get_def)

text \<open>
  C2 as stated fails: \<open>BearerXabc\<close> does not begin with the scheme and a space, and is
  accepted with the credential \<open>abc\<close>.
\<close>

theorem jwtFromHeader_space_counterexample:
  "take 7 ''BearerXabc'' \<noteq> ''Bearer '' \<and>
   jwtFromHeader ''Authorization'' ''Bearer'' (request ''BearerXabc'') = Inr ''abc''"
  by (simp add: jwtFromHeader_def request_def Get_def)

text \<open>
  C7, as amended. When the configured header is missing, or its value is not the scheme
  followed by one separator byte and at least one more byte, the gate answers 400 with
  the extractor's message, and nothing else in the context changes: the store is not
  written.
\<close>

theorem extraction_failure_bad_request:
  assumes "JWTWithConfig parse cfg = Return h"
    and "config = withDefaults cfg"
    and "name = Split (TokenLookup config) '':'' ! 1"
    and "ReqHeader c name = None \<or>
         \<not> (\<exists>sep rest. rest \<noteq> [] \<and> Get (ReqHeader c) name = AuthScheme config @ sep # rest)"
  shows "h c = Return (c\<lparr>response := Some (400, ''missing or malformed jwt'')\<rparr>)"
proof -
  have "\<not> (\<exists>sep rest. rest \<noteq> [] \<and> Get (ReqHeader c) name = AuthScheme config @ sep # rest)"
    using assms(4) by (auto simp: Get_def)
  then have "jwtFromHeader name (AuthScheme config) c = Inl ''missing or malformed jwt''"
    by (simp add: jwtFromHeader_Inl)
  then have "handler parse config (jwtFromHeader name (AuthScheme config)) c
             = Return (JSON StatusBadRequest ''missing or malformed jwt'' c)"
    by (rule handler_extract_fail)
  moreover have "h = handler parse config (jwtFromHeader name (AuthScheme config))"
    using JWTWithConfig_Return [OF assms(1)] assms(2,3) by simp
  ultimately show ?thesis by (simp add: JSON_def StatusBadRequest_def)
qed

theorem extraction_failure_bad_request_witness:
  "serve (ParseWithClaims demoLib) demoConfig (request ''Basic abc'') =
     Return (Return ((request ''Basic abc'')\<lparr>response := Some (400, ''missing or malformed jwt'')\<rparr>))"
proof -
  have "\<not> (\<exists>sep rest. rest \<noteq> [] \<and>
          Get (ReqHeader (request ''Basic abc'')) ''Authorization''
            = AuthScheme (withDefaults demoConfig) @ sep # rest)"
    by (simp add: request_def Get_def withDefaults_demoConfig)
  then show ?thesis
    using extraction_failure_bad_request [OF JWTWithConfig_demoConfig refl refl,
        of "request ''Basic abc''" "ParseWithClaims demoLib"]
    by (simp add: serve_demo withDefaults_demoConfig Split_header_Authorization)
qed

text \<open>
  C7 as stated fails: the value \<open>BearerXgood\<close> lacks the scheme-plus-space prefix, yet
  the gate writes the token into the store and answers nothing.
\<close>

theorem missing_space_counterexample:
  "take 7 ''BearerXgood'' \<noteq> ''Bearer '' \<and>
   serve (ParseWithClaims demoLib) demoConfig (request ''BearerXgood'') =
     Return (Return ((request ''BearerXgood'')\<lparr>store := [''auth'' \<mapsto> TokenValue goodToken]\<rparr>))"
  using serve_good [of "CHR ''X''"] by (simp add: Put_def request_def)

lemma serve_forged:
  "serve (ParseWithClaims demoLib) demoConfig (request ''Bearer forged'') =
     Return (Return (JSON StatusUnauthorized ''signature is invalid'' (request ''Bearer forged'')))"
proof -
  let ?c = "request ''Bearer forged''"
  have 1: "jwtFromHeader ''Authorization'' ''Bearer'' ?c = Inr ''forged''"
    using extract_demo [of "CHR '' ''" "CHR ''f''" "''orged''"] by simp
  have 2: "(if isMapClaims (Claims (withDefaults demoConfig)) then Return (MapClaims [])
            else newClaims (Claims (withDefaults demoConfig))) = Return (MapClaims [])"
    by (simp add: isMap_demo)
  have 3: "Some ''signature is invalid'' \<noteq> None \<or>
      (\<exists>t. Some (demoToken ''forged'' ''HS256'' (MapClaims [(''sub'', ''alice'')])) = Some t \<and> \<not> Valid t)"
    by simp
  show ?thesis
    using handler_verify_fail [where extractor = "jwtFromHeader ''Authorization'' ''Bearer''"
          and parse = "ParseWithClaims demoLib", OF 1 2 parse_forged 3]
    by (simp add: serve_demo isMap_demo)
qed

subsection \<open>The decision\<close>

text \<open>
  C1. The gate is fail-closed. Whenever the extractor fails, or the parser, called on
  the extracted credential with the claims value and the key function the gate gives
  it, returns an error or a token that is not valid, the gate returns the context with
  an error answer written (400 or 401) and nothing else changed: the store is not
  written, and the request does not go on without an answer.
\<close>

theorem gate_fail_closed:
  assumes "JWTWithConfig parse cfg = Return h"
    and "config = withDefaults cfg"
    and "extractor = jwtFromHeader (Split (TokenLookup config) '':'' ! 1) (AuthScheme config)"
    and "(\<exists>e. extractor c = Inl e) \<or>
         (\<exists>auth claims token err.
            extractor c = Inr auth \<and>
            (if isMapClaims (Claims config) then Return (MapClaims [])
             else newClaims (Claims config)) = Return claims \<and>
            parse auth claims (keyFunc config) = (token, err) \<and>
            (err \<noteq> None \<or> (\<exists>t. token = Some t \<and> \<not> Valid t)))"
  shows "\<exists>code body. (code = 400 \<or> code = 401) \<and>
           h c = Return (c\<lparr>response := Some (code, body)\<rparr>)"
proof -
  have h: "h = handler parse config extractor"
    using JWTWithConfig_Return [OF assms(1)] assms(2,3) by simp
  from assms(4) consider
      (extraction) e where "extractor c = Inl e"
    | (verification) auth claims token err where
        "extractor c = Inr auth"
        "(if isMapClaims (Claims config) then Return (MapClaims [])
          else newClaims (Claims config)) = Return claims"
        "parse auth claims (keyFunc config) = (token, err)"
        "err \<noteq> None \<or> (\<exists>t. token = Some t \<and> \<not> Valid t)"
    by blast
  then show ?thesis
  proof cases
    case extraction
    then have "h c = Return (JSON StatusBadRequest e c)"
      by (simp add: h handler_extract_fail)
    then show ?thesis by (auto simp: JSON_def StatusBadRequest_def)
  next
    case verification
    have "h c = Return (JSON StatusUnauthorized
             (case err of
                Some e \<Rightarrow> if isMapClaims (Claims config) then e else ''invalid or expired jwt''
              | None \<Rightarrow> ''invalid or expired jwt'') c)"
      unfolding h
      by (rule handler_verify_fail [where extractor = extractor and parse = parse,
            OF verification])
    then show ?thesis by (auto simp: JSON_def StatusUnauthorized_def)
  qed
qed

theorem gate_fail_closed_witness:
  "\<exists>code body. (code = 400 \<or> code = 401) \<and>
     serve (ParseWithClaims demoLib) demoConfig (request ''Bearer forged'') =
       Return (Return ((request ''Bearer forged'')\<lparr>response := Some (code, body)\<rparr>))"
proof -
  let ?c = "request ''Bearer forged''"
  let ?ex = "jwtFromHeader (Split (TokenLookup (withDefaults demoConfig)) '':'' ! 1)
               (AuthScheme (withDefaults demoConfig))"
  have ex: "?ex = jwtFromHeader ''Authorization'' ''Bearer''"
    by (simp add: withDefaults_demoConfig Split_header_Authorization)
  have 1: "?ex ?c = Inr ''forged''"
    unfolding ex using extract_demo [of "CHR '' ''" "CHR ''f''" "''orged''"] by simp
  have 2: "(if isMapClaims (Claims (withDefaults demoConfig)) then Return (MapClaims [])
            else newClaims (Claims (withDefaults demoConfig))) = Return (MapClaims [])"
    by (simp add: isMap_demo)
  have "(\<exists>e. ?ex ?c = Inl e) \<or>
         (\<exists>auth claims token err.
            ?ex ?c = Inr auth \<and>
            (if isMapClaims (Claims (withDefaults demoConfig)) then Return (MapClaims [])
             else newClaims (Claims (withDefaults demoConfig))) = Return claims \<and>
            ParseWithClaims demoLib auth claims (keyFunc (withDefaults demoConfig)) = (token, err) \<and>
            (err \<noteq> None \<or> (\<exists>t. token = Some t \<and> \<not> Valid t)))"
    using 1 2 parse_forged by blast
  from gate_fail_closed [where parse = "ParseWithClaims demoLib" and cfg = demoConfig
      and config = "withDefaults demoConfig" and extractor = ?ex and c = ?c,
      OF JWTWithConfig_demoConfig refl refl this]
  show ?thesis by (simp add: serve_demo)
qed

text \<open>
  C3, as amended. When the parser returns a valid token and no error for the extracted
  credential, the gate puts the token itself (a \<open>jwt.Token\<close>, of which the decoded claims
  are one field) into the store under the context key, which is \<open>GetKey\<close> or \<open>auth\<close> when
  \<open>GetKey\<close> is empty, and returns with nothing else changed: no answer is written, so
  the request goes on to the next handler.
\<close>

theorem gate_stores_token:
  assumes "JWTWithConfig parse cfg = Return h"
    and "config = withDefaults cfg"
    and "extractor = jwtFromHeader (Split (TokenLookup config) '':'' ! 1) (AuthScheme config)"
    and "extractor c = Inr auth"
    and "(if isMapClaims (Claims config) then Return (MapClaims [])
          else newClaims (Claims config)) = Return claims"
    and "parse auth claims (keyFunc config) = (Some t, None)"
    and "Valid t"
  shows "h c = Return (c\<lparr>store := (store c)(GetKey config \<mapsto> TokenValue t)\<rparr>) \<and>
         GetKey config = (if GetKey cfg = [] then ''auth'' else GetKey cfg)"
proof -
  have "h = handler parse config extractor"
    using JWTWithConfig_Return [OF assms(1)] assms(2,3) by simp
  moreover have "handler parse config extractor c = Return (Put (GetKey config) (TokenValue t) c)"
    by (rule handler_verify_ok [where extractor = extractor and parse = parse,
          OF assms(4) assms(5) assms(6) assms(7)])
  moreover have "GetKey config = (if GetKey cfg = [] then ''auth'' else GetKey cfg)"
    by (simp add: assms(2) withDefaults_def DefaultJwtConfig_def Let_def)
  ultimately show ?thesis by (simp add: Put_def)
qed

theorem gate_stores_token_witness:
  "serve (ParseWithClaims demoLib) demoConfig (request ''Bearer good'') =
     Return (Return ((request ''Bearer good'')\<lparr>store := [''auth'' \<mapsto> TokenValue goodToken]\<rparr>))"
proof -
  let ?c = "request ''Bearer good''"
  let ?ex = "jwtFromHeader (Split (TokenLookup (withDefaults demoConfig)) '':'' ! 1)
               (AuthScheme (withDefaults demoConfig))"
  have ex: "?ex = jwtFromHeader ''Authorization'' ''Bearer''"
    by (simp add: withDefaults_demoConfig Split_header_Authorization)
  have 1: "?ex ?c = Inr ''good''"
    unfolding ex using extract_demo [of "CHR '' ''" "CHR ''g''" "''ood''"] by simp
  have 2: "(if isMapClaims (Claims (withDefaults demoConfig)) then Return (MapClaims [])
            else newClaims (Claims (withDefaults demoConfig))) = Return (MapClaims [])"
    by (simp add: isMap_demo)
  have 3: "Valid goodToken" by (simp add: goodToken_def)
  from gate_stores_token [where parse = "ParseWithClaims demoLib" and cfg = demoConfig
      and config = "withDefaults demoConfig" and extractor = ?ex and c = ?c,
      OF JWTWithConfig_demoConfig refl refl 1 2 parse_good 3]
  show ?thesis by (simp add: serve_demo withDefaults_demoConfig request_def)
qed

text \<open>
  C3 as stated fails: for the credential \<open>good\<close>, whose claim set is \<open>sub = alice\<close>, what
  the store holds under \<open>auth\<close> afterwards is the token, not that claim set.
\<close>

theorem gate_stores_claims_counterexample:
  "serve (ParseWithClaims demoLib) demoConfig (request ''Bearer good'') =
     Return (Return (Put ''auth'' (TokenValue goodToken) (request ''Bearer good''))) \<and>
   TokenClaims goodToken = MapClaims [(''sub'', ''alice'')] \<and>
   store (Put ''auth'' (TokenValue goodToken) (request ''Bearer good'')) ''auth''
     \<noteq> Some (ClaimsValue (MapClaims [(''sub'', ''alice'')]))"
  using serve_good [of "CHR '' ''"] by (simp add: Put_def goodToken_def demoToken_def)

lemma serve_hs384:
  "serve (ParseWithClaims demoLib) demoConfig (request ''Bearer hs384'') =
     Return (Return (JSON StatusUnauthorized ''unexpected jwt signing method=HS384''
       (request ''Bearer hs384'')))"
proof -
  let ?c = "request ''Bearer hs384''"
  have 1: "jwtFromHeader ''Authorization'' ''Bearer'' ?c = Inr ''hs384''"
    using extract_demo [of "CHR '' ''" "CHR ''h''" "''s384''"] by simp
  have 2: "(if isMapClaims (Claims (withDefaults demoConfig)) then Return (MapClaims [])
            else newClaims (Claims (withDefaults demoConfig))) = Return (MapClaims [])"
    by (simp add: isMap_demo)
  have 3: "Some ''unexpected jwt signing method=HS384'' \<noteq> None \<or>
      (\<exists>t. Some (demoToken ''hs384'' ''HS384'' (MapClaims [(''sub'', ''mallory'')])) = Some t
           \<and> \<not> Valid t)"
    by simp
  show ?thesis
    using handler_verify_fail [where extractor = "jwtFromHeader ''Authorization'' ''Bearer''"
          and parse = "ParseWithClaims demoLib", OF 1 2 parse_hs384 3]
    by (simp add: serve_demo isMap_demo)
qed

lemma withDefaults_demoClaims:
  "withDefaults (demoConfig\<lparr>Claims := Some cl\<rparr>) = (withDefaults demoConfig)\<lparr>Claims := Some cl\<rparr>"
  by (simp add: withDefaults_def demoConfig_def DefaultJwtConfig_def Let_def)

lemma serve_demoClaims:
  "serve parse (demoConfig\<lparr>Claims := Some cl\<rparr>) c =
     Return (handler parse ((withDefaults demoConfig)\<lparr>Claims := Some cl\<rparr>)
               (jwtFromHeader ''Authorization'' ''Bearer'') c)"
proof -
  let ?config = "(withDefaults demoConfig)\<lparr>Claims := Some cl\<rparr>"
  have key: "SigningKey (demoConfig\<lparr>Claims := Some cl\<rparr>) \<noteq> None"
    by (simp add: demoConfig_def)
  have lookup: "Split (TokenLookup (withDefaults demoConfig)) '':'' = [''header'', ''Authorization'']"
    by (simp add: withDefaults_demoConfig Split_header_Authorization)
  have scheme: "AuthScheme (withDefaults demoConfig) = ''Bearer''"
    by (simp add: withDefaults_demoConfig)
  show ?thesis
    using key by (simp add: serve_def JWTWithConfig_def Let_def withDefaults_demoClaims lookup scheme)
qed

lemma keyFunc_demoClaims:
  "keyFunc ((withDefaults demoConfig)\<lparr>Claims := x\<rparr>) = keyFunc (withDefaults demoConfig)"
  by (auto simp: keyFunc_def fun_eq_iff)

lemma parse_forged_typed:
  "ParseWithClaims demoLib ''forged'' (PtrClaims shape []) (keyFunc (withDefaults demoConfig))
     = (Some (demoToken ''forged'' ''HS256'' (PtrClaims shape [(''sub'', ''alice'')])),
        Some ''signature is invalid'')"
  by (simp add: ParseWithClaims_def demoLib_def keyFunc_demo fill_def claimFields_def)

lemma parse_hs384_typed:
  "ParseWithClaims demoLib ''hs384'' (PtrClaims shape []) (keyFunc (withDefaults demoConfig))
     = (Some (demoToken ''hs384'' ''HS384'' (PtrClaims shape [(''sub'', ''mallory'')])),
        Some ''unexpected jwt signing method=HS384'')"
  by (simp add: ParseWithClaims_def demoLib_def keyFunc_demo fill_def claimFields_def)

lemma serve_typed_rejected:
  assumes "jwtFromHeader ''Authorization'' ''Bearer'' c = Inr auth"
    and "ParseWithClaims demoLib auth (PtrClaims shape []) (keyFunc (withDefaults demoConfig))
           = (token, Some e)"
  shows "serve (ParseWithClaims demoLib) (demoConfig\<lparr>Claims := Some (PtrClaims shape fs)\<rparr>) c =
           Return (Return (JSON StatusUnauthorized ''invalid or expired jwt'' c))"
proof -
  let ?config = "(withDefaults demoConfig)\<lparr>Claims := Some (PtrClaims shape fs)\<rparr>"
  have 2: "(if isMapClaims (Claims ?config) then Return (MapClaims [])
            else newClaims (Claims ?config)) = Return (PtrClaims shape [])"
    by (simp add: isMapClaims_def newClaims_def)
  have 3: "ParseWithClaims demoLib auth (PtrClaims shape []) (keyFunc ?config) = (token, Some e)"
    using assms(2) by (simp only: keyFunc_demoClaims)
  have 4: "Some e \<noteq> None \<or> (\<exists>t. token = Some t \<and> \<not> Valid t)" by simp
  have "handler (ParseWithClaims demoLib) ?config (jwtFromHeader ''Authorization'' ''Bearer'') c
          = Return (JSON StatusUnauthorized
              (case Some e of
                 Some e \<Rightarrow> if isMapClaims (Claims ?config) then e else ''invalid or expired jwt''
               | None \<Rightarrow> ''invalid or expired jwt'') c)"
    by (rule handler_verify_fail [where extractor = "jwtFromHeader ''Authorization'' ''Bearer''"
          and parse = "ParseWithClaims demoLib", OF assms(1) 2 3 4])
  then show ?thesis by (simp add: serve_demoClaims isMapClaims_def)
qed

subsection \<open>The answer to a rejected credential\<close>

text \<open>
  C5 fails on the code. Under the default configuration (\<open>jwt.MapClaims\<close>) a credential
  of another algorithm and a credential with a wrong signature are both answered with
  401, but each with the parser's own error text, which names the check that failed.
  The same two credentials under a declared claim shape get the one body
  \<open>invalid or expired jwt\<close>, as the last statement of the handler gives to every
  failure that reaches it: the early return of the map branch is the odd one out.
\<close>

theorem unauthorized_body_leak:
  "serve (ParseWithClaims demoLib) demoConfig (request ''Bearer hs384'') =
     Return (Return ((request ''Bearer hs384'')
       \<lparr>response := Some (401, ''unexpected jwt signing method=HS384'')\<rparr>)) \<and>
   serve (ParseWithClaims demoLib) demoConfig (request ''Bearer forged'') =
     Return (Return ((request ''Bearer forged'')
       \<lparr>response := Some (401, ''signature is invalid'')\<rparr>)) \<and>
   serve (ParseWithClaims demoLib) (demoConfig\<lparr>Claims := Some (PtrClaims ''T'' [])\<rparr>)
       (request ''Bearer hs384'') =
     Return (Return ((request ''Bearer hs384'')
       \<lparr>response := Some (401, ''invalid or expired jwt'')\<rparr>)) \<and>
   serve (ParseWithClaims demoLib) (demoConfig\<lparr>Claims := Some (PtrClaims ''T'' [])\<rparr>)
       (request ''Bearer forged'') =
     Return (Return ((request ''Bearer forged'')
       \<lparr>response := Some (401, ''invalid or expired jwt'')\<rparr>))"
proof -
  have 1: "jwtFromHeader ''Authorization'' ''Bearer'' (request ''Bearer hs384'') = Inr ''hs384''"
    using extract_demo [of "CHR '' ''" "CHR ''h''" "''s384''"] by simp
  have 2: "jwtFromHeader ''Authorization'' ''Bearer'' (request ''Bearer forged'') = Inr ''forged''"
    using extract_demo [of "CHR '' ''" "CHR ''f''" "''orged''"] by simp
  note a = serve_hs384 serve_forged
    serve_typed_rejected [OF 1 parse_hs384_typed, where fs = "[]" and shape = "''T''"]
    serve_typed_rejected [OF 2 parse_forged_typed, where fs = "[]" and shape = "''T''"]
  show ?thesis by (simp only: a) (simp add: JSON_def StatusUnauthorized_def)
qed

text \<open>
  In general, for any parser: the body of the 401 that answers a failed verification is
  the parser's error text under \<open>jwt.MapClaims\<close> and the generic message otherwise.
\<close>

lemma unauthorized_body:
  assumes "JWTWithConfig parse cfg = Return h"
    and "config = withDefaults cfg"
    and "extractor = jwtFromHeader (Split (TokenLookup config) '':'' ! 1) (AuthScheme config)"
    and "extractor c = Inr auth"
    and "(if isMapClaims (Claims config) then Return (MapClaims [])
          else newClaims (Claims config)) = Return claims"
    and "parse auth claims (keyFunc config) = (token, err)"
    and "err \<noteq> None \<or> (\<exists>t. token = Some t \<and> \<not> Valid t)"
  shows "h c = Return (c\<lparr>response := Some (401,
           (case err of
              Some e \<Rightarrow> if isMapClaims (Claims config) then e else ''invalid or expired jwt''
            | None \<Rightarrow> ''invalid or expired jwt''))\<rparr>)"
proof -
  have "h = handler parse config extractor"
    using JWTWithConfig_Return [OF assms(1)] assms(2,3) by simp
  moreover have "handler parse config extractor c =
      Return (JSON StatusUnauthorized
        (case err of
           Some e \<Rightarrow> if isMapClaims (Claims config) then e else ''invalid or expired jwt''
         | None \<Rightarrow> ''invalid or expired jwt'') c)"
    by (rule handler_verify_fail [where extractor = extractor and parse = parse,
          OF assms(4) assms(5) assms(6) assms(7)])
  ultimately show ?thesis by (simp add: JSON_def StatusUnauthorized_def)
qed

lemma ParseWithClaims_keyFunc_error:
  assumes "ParseUnverified lib auth claims = (Some t, None)"
    and "kf t = Inl e"
  shows "ParseWithClaims (lib\<lparr>Verify := verify, ClaimsValid := valid\<rparr>) auth claims kf
           = (Some t, Some e)"
  using assms by (simp add: ParseWithClaims_def)

subsection \<open>Algorithm mismatch\<close>

text \<open>
  C6, as amended. Let \<open>Claims\<close> be \<open>jwt.MapClaims\<close> or a pointer to a claims shape, so that
  the handler has a claims value to parse into. When the extracted credential decodes
  to a token whose algorithm differs from the configured signing method, the key
  function returns its error instead of the key, the verifier ends there, and the gate
  answers 401. This holds whatever the signature
  check \<open>verify\<close> and the claims check \<open>valid\<close> would say: they are not consulted, so a
  signature that is good under the other algorithm does not help. The body is the key
  function's message under \<open>jwt.MapClaims\<close> and the generic one otherwise.
\<close>

theorem algorithm_mismatch_rejected:
  assumes "JWTWithConfig (ParseWithClaims (lib\<lparr>Verify := verify, ClaimsValid := valid\<rparr>)) cfg
             = Return h"
    and "config = withDefaults cfg"
    and "extractor = jwtFromHeader (Split (TokenLookup config) '':'' ! 1) (AuthScheme config)"
    and "extractor c = Inr auth"
    and "(if isMapClaims (Claims config) then Return (MapClaims [])
          else newClaims (Claims config)) = Return claims"
    and "ParseUnverified lib auth claims = (Some t, None)"
    and "Alg t \<noteq> SigningMethod config"
  shows "keyFunc config t = Inl (''unexpected jwt signing method='' @ fmt_v (Header t ''alg'')) \<and>
         h c = Return (c\<lparr>response := Some (401,
           if isMapClaims (Claims config)
           then ''unexpected jwt signing method='' @ fmt_v (Header t ''alg'')
           else ''invalid or expired jwt'')\<rparr>)"
proof -
  let ?parse = "ParseWithClaims (lib\<lparr>Verify := verify, ClaimsValid := valid\<rparr>)"
  let ?e = "''unexpected jwt signing method='' @ fmt_v (Header t ''alg'')"
  have kf: "keyFunc config t = Inl ?e"
    using assms(7) by (simp add: keyFunc_def)
  have parse: "?parse auth claims (keyFunc config) = (Some t, Some ?e)"
    using assms(6) kf by (rule ParseWithClaims_keyFunc_error)
  have "Some ?e \<noteq> None \<or> (\<exists>t'. Some t = Some t' \<and> \<not> Valid t')" by simp
  with assms(4) assms(5) parse
  have "handler ?parse config extractor c =
      Return (JSON StatusUnauthorized
        (case Some ?e of
           Some e \<Rightarrow> if isMapClaims (Claims config) then e else ''invalid or expired jwt''
         | None \<Rightarrow> ''invalid or expired jwt'') c)"
    by (rule handler_verify_fail)
  moreover have "h = handler ?parse config extractor"
    using JWTWithConfig_Return [OF assms(1)] assms(2,3) by simp
  ultimately show ?thesis using kf by (simp add: JSON_def StatusUnauthorized_def)
qed

theorem algorithm_mismatch_rejected_witness:
  "serve (ParseWithClaims (demoLib\<lparr>Verify := (\<lambda>alg raw key. None), ClaimsValid := (\<lambda>claims. None)\<rparr>))
     demoConfig (request ''Bearer hs384'') =
     Return (Return ((request ''Bearer hs384'')
       \<lparr>response := Some (401, ''unexpected jwt signing method=HS384'')\<rparr>))"
proof -
  let ?c = "request ''Bearer hs384''"
  let ?ex = "jwtFromHeader (Split (TokenLookup (withDefaults demoConfig)) '':'' ! 1)
               (AuthScheme (withDefaults demoConfig))"
  let ?t = "demoToken ''hs384'' ''HS384'' (MapClaims [(''sub'', ''mallory'')])"
  have ex: "?ex = jwtFromHeader ''Authorization'' ''Bearer''"
    by (simp add: withDefaults_demoConfig Split_header_Authorization)
  have 1: "?ex ?c = Inr ''hs384''"
    unfolding ex using extract_demo [of "CHR '' ''" "CHR ''h''" "''s384''"] by simp
  have 2: "(if isMapClaims (Claims (withDefaults demoConfig)) then Return (MapClaims [])
            else newClaims (Claims (withDefaults demoConfig))) = Return (MapClaims [])"
    by (simp add: isMap_demo)
  have 3: "ParseUnverified demoLib ''hs384'' (MapClaims []) = (Some ?t, None)"
    by (simp add: demoLib_def fill_def)
  have 4: "Alg ?t \<noteq> SigningMethod (withDefaults demoConfig)"
    by (simp add: demoToken_def withDefaults_demoConfig)
  from algorithm_mismatch_rejected [where lib = demoLib and cfg = demoConfig
      and config = "withDefaults demoConfig" and extractor = ?ex and c = ?c,
      OF JWTWithConfig_demoConfig refl refl 1 2 3 4]
  show ?thesis by (simp add: serve_demo isMap_demo demoToken_def fmt_v_def)
qed

text \<open>
  C6 as stated fails: with a claims shape held by value the handler panics while making
  the claims value, before the credential is parsed, so a credential of another
  algorithm is not answered with 401.
\<close>

theorem algorithm_mismatch_counterexample:
  "map_option Alg (fst (ParseUnverified demoLib ''hs384'' (MapClaims []))) = Some ''HS384'' \<and>
   SigningMethod (withDefaults (demoConfig\<lparr>Claims := Some (StructClaims ''T'' [])\<rparr>)) = ''HS256'' \<and>
   serve (ParseWithClaims demoLib) (demoConfig\<lparr>Claims := Some (StructClaims ''T'' [])\<rparr>)
       (request ''Bearer hs384'') =
     Return (Panic ''reflect: Elem of invalid type'')"
proof -
  have 1: "jwtFromHeader ''Authorization'' ''Bearer'' (request ''Bearer hs384'') = Inr ''hs384''"
    using extract_demo [of "CHR '' ''" "CHR ''h''" "''s384''"] by simp
  have 2: "map_option Alg (fst (ParseUnverified demoLib ''hs384'' (MapClaims []))) = Some ''HS384''"
    by (simp add: demoLib_def demoToken_def)
  have 3: "SigningMethod (withDefaults (demoConfig\<lparr>Claims := Some (StructClaims ''T'' [])\<rparr>)) = ''HS256''"
    by (simp add: withDefaults_demoClaims withDefaults_demoConfig)
  have 4: "serve (ParseWithClaims demoLib) (demoConfig\<lparr>Claims := Some (StructClaims ''T'' [])\<rparr>)
       (request ''Bearer hs384'') = Return (Panic ''reflect: Elem of invalid type'')"
    by (simp add: serve_demoClaims handler_def 1 isMapClaims_def newClaims_def)
  from 2 3 4 show ?thesis by (intro conjI)
qed

lemma JWTWithConfig_hooks:
  "JWTWithConfig parse (cfg\<lparr>ErrorHandler := e, SuccessHandler := s\<rparr>) = JWTWithConfig parse cfg"
  by (auto simp: JWTWithConfig_def withDefaults_hooks handler_hooks Let_def split: list.splits)

lemma serve_hooks:
  "serve parse (cfg\<lparr>ErrorHandler := e, SuccessHandler := s\<rparr>) c = serve parse cfg c"
  by (simp add: serve_def JWTWithConfig_hooks)

lemma serve_Basic:
  "serve parse demoConfig (request ''Basic abc'') =
     Return (Return (JSON StatusBadRequest ''missing or malformed jwt'' (request ''Basic abc'')))"
proof -
  have "jwtFromHeader ''Authorization'' ''Bearer'' (request ''Basic abc'')
          = Inl ''missing or malformed jwt''"
    by (simp add: jwtFromHeader_def request_def Get_def)
  then show ?thesis by (simp add: serve_demo handler_extract_fail)
qed

subsection \<open>The hooks\<close>

text \<open>
  C4 fails on the code. With a success hook that would put a mark into the store and an
  error hook that would replace the error, an accepted request leaves the gate with the
  token in the store and no mark, and a rejected one is answered with the extractor's
  own message: neither hook has run.
\<close>

theorem hooks_not_invoked:
  "serve (ParseWithClaims demoLib)
     (demoConfig\<lparr>ErrorHandler := Some (\<lambda>e. ''replaced''),
                 SuccessHandler := Some (Put ''seen'' (ClaimsValue (MapClaims [])))\<rparr>)
     (request ''Bearer good'') =
     Return (Return ((request ''Bearer good'')\<lparr>store := [''auth'' \<mapsto> TokenValue goodToken]\<rparr>)) \<and>
   serve (ParseWithClaims demoLib)
     (demoConfig\<lparr>ErrorHandler := Some (\<lambda>e. ''replaced''),
                 SuccessHandler := Some (Put ''seen'' (ClaimsValue (MapClaims [])))\<rparr>)
     (request ''Basic abc'') =
     Return (Return ((request ''Basic abc'')\<lparr>response := Some (400, ''missing or malformed jwt'')\<rparr>))"
proof -
  let ?parse = "ParseWithClaims demoLib"
  let ?cfg = "demoConfig\<lparr>ErrorHandler := Some (\<lambda>e. ''replaced''),
                SuccessHandler := Some (Put ''seen'' (ClaimsValue (MapClaims [])))\<rparr>"
  have 1: "serve ?parse ?cfg (request ''Bearer good'') =
      Return (Return (Put ''auth'' (TokenValue goodToken) (request ''Bearer good'')))"
    using serve_good [of "CHR '' ''"] by (simp only: serve_hooks append_Cons append_Nil)
  have 2: "serve ?parse ?cfg (request ''Basic abc'') =
      Return (Return (JSON StatusBadRequest ''missing or malformed jwt'' (request ''Basic abc'')))"
    by (simp only: serve_hooks serve_Basic)
  show ?thesis
    by (simp only: 1 2) (simp add: Put_def JSON_def StatusBadRequest_def request_def)
qed

subsection \<open>Setup\<close>

text \<open>
  C8. A configuration without a signing key makes \<open>JWTWithConfig\<close> itself panic: no
  handler is returned, so no request is ever processed under such a configuration.
\<close>

theorem missing_key_panics:
  "SigningKey cfg = None \<Longrightarrow>
     JWTWithConfig parse cfg = Panic ''yee: jwt middleware requires signing key''"
  by (simp add: JWTWithConfig_def)

theorem missing_key_panics_witness:
  "serve (ParseWithClaims demoLib) (demoConfig\<lparr>SigningKey := None\<rparr>) (request ''Bearer good'')
     = Panic ''yee: jwt middleware requires signing key''"
  using missing_key_panics [of "demoConfig\<lparr>SigningKey := None\<rparr>" "ParseWithClaims demoLib"]
  by (simp add: serve_def)

lemma Split_head: "\<exists>more. Split s [c] = takeWhile (\<lambda>x. x \<noteq> c) s # more"
proof (cases "c \<in> set s")
  case True
  then obtain a b where s: "s = a @ c # b" and a: "c \<notin> set a"
    by (auto dest: split_list_first)
  from a have "takeWhile (\<lambda>x. x \<noteq> c) s = a"
    unfolding s by (subst takeWhile_append2) auto
  with a show ?thesis unfolding s by (simp add: Split_first)
next
  case False
  then have all: "takeWhile (\<lambda>x. x \<noteq> c) s = s"
    by (auto simp: takeWhile_eq_all_conv)
  show ?thesis by (simp only: Split_absent [OF False] all) simp
qed

lemma handler_extractor:
  "handler parse config extractor c =
     (case extractor c of
        Inl err \<Rightarrow> Return (JSON StatusBadRequest err c)
      | Inr auth \<Rightarrow> handler parse config (\<lambda>c. Inr auth) c)"
  by (simp add: handler_def split: sum.splits)

lemma AuthScheme_TokenLookup:
  "AuthScheme (withDefaults (cfg\<lparr>TokenLookup := x\<rparr>)) = AuthScheme (withDefaults cfg)"
  by (simp add: withDefaults_def Let_def)

lemma handler_withDefaults_TokenLookup:
  "handler parse (withDefaults (cfg\<lparr>TokenLookup := x\<rparr>)) = handler parse (withDefaults cfg)"
proof (cases "x = []")
  case True
  have "withDefaults (cfg\<lparr>TokenLookup := []\<rparr>)
          = (withDefaults cfg)\<lparr>TokenLookup := TokenLookup DefaultJwtConfig\<rparr>"
    by (simp add: withDefaults_def Let_def)
  then show ?thesis using True by (simp add: fun_eq_iff handler_TokenLookup)
next
  case False
  then show ?thesis by (simp add: fun_eq_iff withDefaults_TokenLookup handler_TokenLookup)
qed

text \<open>
  C9. For a lookup with a colon, \<open>source:name\<close>, where \<open>name\<close> is the piece after the first
  colon (up to the next colon, if there is one), the source is never looked at. Setup
  succeeds, with the very handler that \<open>header:name\<close> gives, and that handler decides by
  the request header called \<open>name\<close>: when the header is missing or its value is not the
  scheme, a separator and a credential, the answer is 400; otherwise the credential
  taken from that header is what goes on to verification.
\<close>

theorem lookup_source_ignored:
  assumes "SigningKey cfg \<noteq> None"
    and "TokenLookup cfg = source @ '':'' @ rest"
    and "CHR '':'' \<notin> set source"
    and "name = takeWhile (\<lambda>x. x \<noteq> CHR '':'') rest"
    and "config = withDefaults cfg"
  shows "\<exists>h. JWTWithConfig parse cfg = Return h \<and>
           JWTWithConfig parse (cfg\<lparr>TokenLookup := ''header:'' @ name\<rparr>) = Return h \<and>
           (\<forall>c. (\<not> (\<exists>sep tok. tok \<noteq> [] \<and>
                        Get (ReqHeader c) name = AuthScheme config @ sep # tok) \<longrightarrow>
                    h c = Return (c\<lparr>response := Some (400, ''missing or malformed jwt'')\<rparr>)) \<and>
                (\<forall>sep tok. tok \<noteq> [] \<and>
                        Get (ReqHeader c) name = AuthScheme config @ sep # tok \<longrightarrow>
                    h c = handler parse config (\<lambda>c. Inr tok) c))"
proof -
  let ?h = "handler parse config (jwtFromHeader name (AuthScheme config))"
  have lookup: "TokenLookup config = source @ '':'' @ rest"
    using assms(2) by (simp add: assms(5) withDefaults_def Let_def)
  obtain more where "Split rest '':'' = name # more"
    using Split_head [of rest "CHR '':''"] assms(4) by auto
  then have parts: "Split (TokenLookup config) '':'' = source # name # more"
    using Split_first [OF assms(3), of rest] lookup by simp
  have 1: "JWTWithConfig parse cfg = Return ?h"
    using assms(1) parts by (simp add: JWTWithConfig_def Let_def assms(5))
  have name: "CHR '':'' \<notin> set name"
    unfolding assms(4) by (auto dest: set_takeWhileD)
  have "CHR '':'' \<notin> set ''header''" by simp
  then have "Split (''header'' @ '':'' @ name) '':'' = [''header'', name]"
    using Split_two [OF _ name, of "''header''"] by simp
  moreover have "TokenLookup (withDefaults (cfg\<lparr>TokenLookup := ''header:'' @ name\<rparr>))
                  = ''header'' @ '':'' @ name"
    by (simp add: withDefaults_def Let_def)
  ultimately have 2: "JWTWithConfig parse (cfg\<lparr>TokenLookup := ''header:'' @ name\<rparr>) = Return ?h"
    using assms(1)
    by (simp add: JWTWithConfig_def Let_def assms(5) handler_withDefaults_TokenLookup
        AuthScheme_TokenLookup)
  have 3: "?h c = Return (c\<lparr>response := Some (400, ''missing or malformed jwt'')\<rparr>)"
    if "\<not> (\<exists>sep tok. tok \<noteq> [] \<and> Get (ReqHeader c) name = AuthScheme config @ sep # tok)" for c
  proof -
    from that have "jwtFromHeader name (AuthScheme config) c = Inl ''missing or malformed jwt''"
      by (simp add: jwtFromHeader_Inl)
    then show ?thesis
      by (simp add: handler_extract_fail JSON_def StatusBadRequest_def)
  qed
  have 4: "?h c = handler parse config (\<lambda>c. Inr tok) c"
    if "tok \<noteq> [] \<and> Get (ReqHeader c) name = AuthScheme config @ sep # tok" for c sep tok
  proof -
    from that have "jwtFromHeader name (AuthScheme config) c = Inr tok"
      by (auto simp: jwtFromHeader_Inr)
    then show ?thesis
      by (subst handler_extractor) simp
  qed
  from 1 2 3 4 show ?thesis by blast
qed

theorem lookup_source_ignored_witness:
  "serve (ParseWithClaims demoLib) (demoConfig\<lparr>TokenLookup := ''query:Authorization''\<rparr>)
       (request ''Bearer good'') =
     Return (Return ((request ''Bearer good'')\<lparr>store := [''auth'' \<mapsto> TokenValue goodToken]\<rparr>)) \<and>
   serve (ParseWithClaims demoLib) (demoConfig\<lparr>TokenLookup := ''query:Authorization''\<rparr>)
       (request ''Basic abc'') =
     Return (Return ((request ''Basic abc'')\<lparr>response := Some (400, ''missing or malformed jwt'')\<rparr>))"
proof -
  let ?parse = "ParseWithClaims demoLib"
  let ?cfg = "demoConfig\<lparr>TokenLookup := ''query:Authorization''\<rparr>"
  let ?config = "withDefaults ?cfg"
  have config: "?config = (withDefaults demoConfig)\<lparr>TokenLookup := ''query:Authorization''\<rparr>"
    by (rule withDefaults_TokenLookup) simp
  have scheme: "AuthScheme ?config = ''Bearer''"
    by (simp add: config withDefaults_demoConfig)
  have 1: "SigningKey ?cfg \<noteq> None" by (simp add: demoConfig_def)
  have 2: "TokenLookup ?cfg = ''query'' @ '':'' @ ''Authorization''" by simp
  have 3: "CHR '':'' \<notin> set ''query''" by simp
  have 4: "''Authorization'' = takeWhile (\<lambda>x. x \<noteq> CHR '':'') ''Authorization''" by simp
  from lookup_source_ignored [OF 1 2 3 4 refl, of "ParseWithClaims demoLib"]
  obtain h where registered: "JWTWithConfig ?parse ?cfg = Return h"
    and reject: "\<And>c. \<not> (\<exists>sep tok. tok \<noteq> [] \<and>
                    Get (ReqHeader c) ''Authorization'' = AuthScheme ?config @ sep # tok) \<Longrightarrow>
                  h c = Return (c\<lparr>response := Some (400, ''missing or malformed jwt'')\<rparr>)"
    and go_on: "\<And>c sep tok. tok \<noteq> [] \<and>
                    Get (ReqHeader c) ''Authorization'' = AuthScheme ?config @ sep # tok \<Longrightarrow>
                  h c = handler ?parse ?config (\<lambda>c. Inr tok) c"
    by blast
  have "''good'' \<noteq> [] \<and> Get (ReqHeader (request ''Bearer good'')) ''Authorization''
          = AuthScheme ?config @ CHR '' '' # ''good''"
    by (simp add: scheme request_def Get_def)
  then have "h (request ''Bearer good'')
          = handler ?parse ?config (\<lambda>c. Inr ''good'') (request ''Bearer good'')"
    by (rule go_on)
  also have "\<dots> = handler ?parse (withDefaults demoConfig) (\<lambda>c. Inr ''good'') (request ''Bearer good'')"
    by (simp only: config handler_TokenLookup)
  also have "\<dots> = Return (Put (GetKey (withDefaults demoConfig)) (TokenValue goodToken)
                      (request ''Bearer good''))"
  proof (rule handler_verify_ok [where extractor = "\<lambda>c. Inr ''good''" and parse = ?parse,
        OF refl _ parse_good])
    show "(if isMapClaims (Claims (withDefaults demoConfig)) then Return (MapClaims [])
           else newClaims (Claims (withDefaults demoConfig))) = Return (MapClaims [])"
      by (simp add: isMap_demo)
    show "Valid goodToken" by (simp add: goodToken_def)
  qed
  finally have good: "h (request ''Bearer good'')
      = Return ((request ''Bearer good'')\<lparr>store := [''auth'' \<mapsto> TokenValue goodToken]\<rparr>)"
    by (simp add: withDefaults_demoConfig Put_def request_def)
  have "\<not> (\<exists>sep tok. tok \<noteq> [] \<and> Get (ReqHeader (request ''Basic abc'')) ''Authorization''
             = AuthScheme ?config @ sep # tok)"
    by (simp add: scheme request_def Get_def)
  then have bad: "h (request ''Basic abc'')
      = Return ((request ''Basic abc'')\<lparr>response := Some (400, ''missing or malformed jwt'')\<rparr>)"
    by (rule reject)
  show ?thesis by (simp only: serve_def registered result.case good bad simp_thms)
qed

text \<open>
  C10, as amended. When the signing key is there and the lookup is not empty and has no
  colon, the lookup splits into one piece and taking the second piece panics: setup
  fails for a reason other than a missing key.
\<close>

theorem lookup_without_colon_panics:
  assumes "SigningKey cfg \<noteq> None"
    and "TokenLookup cfg \<noteq> []"
    and "CHR '':'' \<notin> set (TokenLookup cfg)"
  shows "JWTWithConfig parse cfg = Panic ''runtime error: index out of range [1] with length 1''"
proof -
  have "TokenLookup (withDefaults cfg) = TokenLookup cfg"
    using assms(2) by (simp add: withDefaults_def Let_def)
  then have "Split (TokenLookup (withDefaults cfg)) '':'' = [TokenLookup cfg]"
    using Split_absent [OF assms(3)] by simp
  then show ?thesis using assms(1) by (simp add: JWTWithConfig_def Let_def)
qed

theorem lookup_without_colon_panics_witness:
  "serve (ParseWithClaims demoLib) (demoConfig\<lparr>TokenLookup := ''Authorization''\<rparr>)
     (request ''Bearer good'')
     = Panic ''runtime error: index out of range [1] with length 1''"
proof -
  have 1: "SigningKey (demoConfig\<lparr>TokenLookup := ''Authorization''\<rparr>) \<noteq> None"
    by (simp add: demoConfig_def)
  have 2: "TokenLookup (demoConfig\<lparr>TokenLookup := ''Authorization''\<rparr>) \<noteq> []" by simp
  have 3: "CHR '':'' \<notin> set (TokenLookup (demoConfig\<lparr>TokenLookup := ''Authorization''\<rparr>))"
    by simp
  from lookup_without_colon_panics [OF 1 2 3, of "ParseWithClaims demoLib"]
  show ?thesis by (simp add: serve_def)
qed

text \<open>
  C10 as stated fails for a configuration that also lacks the signing key: the check of
  the key comes first, and setup panics with its message, not with the index.
\<close>

theorem lookup_without_colon_counterexample:
  "TokenLookup (demoConfig\<lparr>SigningKey := None, TokenLookup := ''Authorization''\<rparr>) \<noteq> [] \<and>
   CHR '':'' \<notin> set (TokenLookup (demoConfig\<lparr>SigningKey := None, TokenLookup := ''Authorization''\<rparr>)) \<and>
   JWTWithConfig (ParseWithClaims demoLib)
       (demoConfig\<lparr>SigningKey := None, TokenLookup := ''Authorization''\<rparr>)
     = Panic ''yee: jwt middleware requires signing key'' \<and>
   JWTWithConfig (ParseWithClaims demoLib)
       (demoConfig\<lparr>SigningKey := None, TokenLookup := ''Authorization''\<rparr>)
     \<noteq> Panic ''runtime error: index out of range [1] with length 1''"
  by (simp add: JWTWithConfig_def)

end
